theory Spec2Isabelle
  imports Main
begin

section \<open>Python values, errors and list helpers\<close>

text \<open>
  The embedding follows \<^verbatim>\<open>deeppavlov/models/kbqa/query_generator.py\<close>.
  Entity ids, relation ids, directions and questions are Python strings. A candidate
  output is a Python tuple of strings, modelled as a \<open>string list\<close>, so that its arity
  is its length. Every exception the source can raise is a value of \<open>py_error\<close>.
\<close>

datatype py_error = IndexError | AttributeError | ValueError | UnboundLocalError

type_synonym 'a result = "py_error + 'a"

definition bindE :: "'a result \<Rightarrow> ('a \<Rightarrow> 'b result) \<Rightarrow> 'b result" where
  "bindE m f = (case m of Inl e \<Rightarrow> Inl e | Inr x \<Rightarrow> f x)"

text \<open>\<^verbatim>\<open>xs[i]\<close> for a non-negative index: raises IndexError out of range.\<close>

definition py_index :: "'a list \<Rightarrow> nat \<Rightarrow> 'a result" where
  "py_index xs i = (if i < length xs then Inr (xs ! i) else Inl IndexError)"

text \<open>\<^verbatim>\<open>xs[-1]\<close>: raises IndexError on the empty tuple. \<^verbatim>\<open>xs[:-1]\<close> is \<open>butlast\<close>
  and \<^verbatim>\<open>xs[:n]\<close> with \<open>n \<ge> 0\<close> is \<open>take n\<close>; neither raises.\<close>

definition py_last :: "'a list \<Rightarrow> 'a result" where
  "py_last xs = (if xs = [] then Inl IndexError else Inr (last xs))"

text \<open>Truthiness of an optional string (\<^verbatim>\<open>None\<close>, \<^verbatim>\<open>False\<close> and \<^verbatim>\<open>''\<close> are falsy).\<close>

definition truthy :: "string option \<Rightarrow> bool" where
  "truthy v = (case v of None \<Rightarrow> False | Some s \<Rightarrow> s \<noteq> [])"

text \<open>\<^verbatim>\<open>str(n)\<close> for a list length: the decimal numeral.\<close>

definition digit_char :: "nat \<Rightarrow> char" where
  "digit_char d = ''0123456789'' ! d"

function py_str :: "nat \<Rightarrow> string" where
  "py_str n = (if n < 10 then [digit_char n] else py_str (n div 10) @ [digit_char (n mod 10)])"
  by pat_completeness auto
termination
  by (relation "measure id") auto

declare py_str.simps [simp del]

text \<open>
  \<^verbatim>\<open>sorted(xs, key=key, reverse=reverse)\<close>: a stable sort; with \<^verbatim>\<open>reverse=True\<close> the
  order is descending and elements with equal keys keep their original order.
\<close>

definition py_sorted :: "('a \<Rightarrow> 'k::linorder) \<Rightarrow> bool \<Rightarrow> 'a list \<Rightarrow> 'a list" where
  "py_sorted key reverse xs = (if reverse then rev (sort_key key (rev xs)) else sort_key key xs)"

text \<open>Loops that return at the first iteration producing a nonempty list.\<close>

fun first_nonempty :: "('a \<Rightarrow> 'b list) \<Rightarrow> 'a list \<Rightarrow> 'b list" where
  "first_nonempty f [] = []"
| "first_nonempty f (x # xs) = (let ys = f x in if ys \<noteq> [] then ys else first_nonempty f xs)"

fun first_nonemptyE :: "('a \<Rightarrow> 'b list result) \<Rightarrow> 'a list \<Rightarrow> 'b list result" where
  "first_nonemptyE f [] = Inr []"
| "first_nonemptyE f (x # xs) =
     (case f x of Inl e \<Rightarrow> Inl e
      | Inr ys \<Rightarrow> if ys \<noteq> [] then Inr ys else first_nonemptyE f xs)"

text \<open>Loops that append every iteration's items, stopping at the first exception.\<close>

fun concat_mapE :: "('a \<Rightarrow> 'b list result) \<Rightarrow> 'a list \<Rightarrow> 'b list result" where
  "concat_mapE f [] = Inr []"
| "concat_mapE f (x # xs) =
     (case f x of Inl e \<Rightarrow> Inl e
      | Inr ys \<Rightarrow> (case concat_mapE f xs of Inl e \<Rightarrow> Inl e | Inr zs \<Rightarrow> Inr (ys @ zs)))"

section \<open>The generator's collaborators and configuration\<close>

text \<open>
  The knowledge-graph parser, the relation ranker, the entity linker, the tokenizer and
  the helpers of \<^verbatim>\<open>utils.py\<close> are external to the file: they are fields of the
  environment. A call \<^verbatim>\<open>wiki_parser(what, direction, entity, rel, obj, type_of_rel, filter_obj)\<close>
  is one of the three \<open>wiki_*\<close> fields (one per value of \<^verbatim>\<open>what\<close>) applied to
  \<open>direction entity rel obj type_of_rel filter_obj\<close>, with \<open>None\<close> for an omitted argument.
  The type \<open>'f\<close> stands for Python floats (scores and parsed literals); \<open>py_float\<close> is
  \<^verbatim>\<open>float(s)\<close>, with \<open>None\<close> for ValueError; where values are compared, \<open>'f\<close> is a
  linear order (no NaN). \<open>list_set\<close> is \<^verbatim>\<open>list(set(xs))\<close>, whose order Python leaves to
  string hashing; \<^verbatim>\<open>list(set(xs) & set(ys))\<close> is \<open>list_set\<close> of the elements of \<open>xs\<close> that
  are in \<open>ys\<close>. The three bounds are non-negative integers.
\<close>

record 'f env =
  wiki_rels :: "string \<Rightarrow> string \<Rightarrow> string option \<Rightarrow> string option \<Rightarrow> string option \<Rightarrow> string option \<Rightarrow> string list"
  wiki_objects :: "string \<Rightarrow> string \<Rightarrow> string option \<Rightarrow> string option \<Rightarrow> string option \<Rightarrow> string option \<Rightarrow> string list"
  wiki_triplets :: "string \<Rightarrow> string \<Rightarrow> string option \<Rightarrow> string option \<Rightarrow> string option \<Rightarrow> string option \<Rightarrow> (string \<times> string \<times> string) list"
  rank_rels :: "string \<Rightarrow> string list \<Rightarrow> (string \<times> 'f) list"
  linker :: "string \<Rightarrow> string list \<times> 'f list"
  word_tokenize :: "string \<Rightarrow> string list"
  extract_year :: "string list \<Rightarrow> string \<Rightarrow> string option"
  extract_number :: "string list \<Rightarrow> string \<Rightarrow> string option"
  asc_desc :: "string \<Rightarrow> bool"
  py_float :: "string \<Rightarrow> 'f option"
  list_set :: "string list \<Rightarrow> string list"
  rank_list_0 :: "string list"
  rank_list_1 :: "string list"
  entities_to_leave :: nat
  rels_to_leave :: nat
  rels_to_leave_2hop :: nat

text \<open>
  Modelled from the spec: \<^verbatim>\<open>make_entity_combs\<close> of \<^verbatim>\<open>utils.py\<close>, which is not among
  the sources. The spec describes it as the Cartesian product of the entity-id lists,
  iterated outer-to-inner in list order (the first list varies slowest).
\<close>

definition make_entity_combs :: "string list list \<Rightarrow> string list list" where
  "make_entity_combs entity_ids = product_lists entity_ids"

section \<open>Entity linking\<close>

definition get_entity_ids :: "'f env \<Rightarrow> string list \<Rightarrow> string list list" where
  "get_entity_ids env entities = map (\<lambda>entity. take 15 (fst (linker env entity))) entities"

section \<open>Count solver (template 4)\<close>

text \<open>
  The body of the loops over \<^verbatim>\<open>rel\<close> and \<^verbatim>\<open>direction\<close> for one entity: \<open>answers\<close> is the
  list the source initialises once per entity and extends at every iteration.
\<close>

fun count_rels :: "'f env \<Rightarrow> string \<Rightarrow> (string \<times> string) list \<Rightarrow> string list \<Rightarrow> string list list" where
  "count_rels env entity [] answers = []"
| "count_rels env entity ((rel, direction) # rest) answers =
     (let answers = answers @ wiki_objects env direction entity (Some rel) None (Some ''direct'') None
      in (if length answers > 0 then [[rel, py_str (length answers)]] else [])
         @ count_rels env entity rest answers)"

definition questions_with_count_solver ::
  "'f env \<Rightarrow> string \<Rightarrow> string list list \<Rightarrow> string list list option \<Rightarrow> string list list result" where
  "questions_with_count_solver env question entity_ids rels_from_template =
     bindE
       (case rels_from_template of
          Some rft \<Rightarrow>
            bindE (py_index rft 0) (\<lambda>t.
            bindE (py_last t) (\<lambda>direction. Inr (butlast t, [direction])))
        | None \<Rightarrow>
            (let ex_rels = List.bind entity_ids (\<lambda>entity_id.
                             List.bind (take (entities_to_leave env) entity_id) (\<lambda>entity.
                               wiki_rels env ''forw'' entity None None (Some ''direct'') None
                               @ wiki_rels env ''backw'' entity None None (Some ''direct'') None));
                 ex_rels = list_set env ex_rels;
                 scores = rank_rels env question ex_rels
             in Inr (map fst scores, [''forw'', ''backw''])))
       (\<lambda>(top_rels, directions).
          Inr (List.bind entity_ids (\<lambda>entity_id.
                 List.bind (take (entities_to_leave env) entity_id) (\<lambda>entity.
                   count_rels env entity
                     (List.bind (take (rels_to_leave env) top_rels) (\<lambda>rel.
                        map (\<lambda>direction. (rel, direction)) directions))
                     []))))"

section \<open>Numeric and qualifier solvers (templates 0 to 3)\<close>

text \<open>\<open>template_num\<close> is the attribute \<^verbatim>\<open>self.template_num\<close> the two searches read.\<close>

definition find_relevant_subgraph_cqwn ::
  "'f env \<Rightarrow> int \<Rightarrow> string list \<Rightarrow> string list \<Rightarrow> string \<Rightarrow> string list list" where
  "find_relevant_subgraph_cqwn env template_num entities_list rels num =
     List.bind entities_list (\<lambda>entity.
     List.bind rels (\<lambda>rel.
     List.bind (wiki_objects env ''forw'' entity (Some rel) None None None) (\<lambda>obj.
       (if template_num = 0 then
          (let answers = wiki_objects env ''forw'' obj (Some rel) None (Some ''statement'') None;
               second_rels = wiki_rels env ''forw'' obj None None (Some ''qualifier'') (Some num)
           in if length second_rels > 0 \<and> length answers > 0
              then List.bind second_rels (\<lambda>second_rel. map (\<lambda>ans. [rel, second_rel, ans]) answers)
              else [])
        else [])
       @
       (if template_num = 1 then
          (let answer_triplets = wiki_triplets env ''forw'' obj None None (Some ''qualifier'') None;
               second_rels = wiki_rels env ''forw'' obj (Some rel) None (Some ''statement'') (Some num)
           in if length second_rels > 0 \<and> length answer_triplets > 0
              then map (\<lambda>ans. [rel, fst (snd ans), snd (snd ans)]) answer_triplets
              else [])
        else []))))"

definition find_relevant_subgraph_cqwq ::
  "'f env \<Rightarrow> int \<Rightarrow> string list list \<Rightarrow> string list \<Rightarrow> string list list result" where
  "find_relevant_subgraph_cqwq env template_num ent_combs rels =
     concat_mapE (\<lambda>ent_comb.
     concat_mapE (\<lambda>rel.
       bindE (py_index ent_comb 0) (\<lambda>e0.
       concat_mapE (\<lambda>obj.
         bindE
           (if template_num = 2 then
              (let answer_triplets = wiki_triplets env ''forw'' obj None None (Some ''qualifier'') None
               in bindE (py_index ent_comb 1) (\<lambda>e1.
                    let second_rels = wiki_rels env ''backw'' e1 (Some rel) (Some obj) (Some ''statement'') None
                    in Inr (if length second_rels > 0 \<and> length answer_triplets > 0
                            then map (\<lambda>ans. [rel, fst (snd ans), snd (snd ans)]) answer_triplets
                            else [])))
            else Inr [])
           (\<lambda>outs2.
         bindE
           (if template_num = 3 then
              (let answers = wiki_objects env ''forw'' obj (Some rel) None (Some ''statement'') None
               in bindE (py_index ent_comb 1) (\<lambda>e1.
                    let second_rels = wiki_rels env ''backw'' e1 None (Some obj) (Some ''qualifier'') None
                    in Inr (if length second_rels > 0 \<and> length answers > 0
                            then List.bind second_rels (\<lambda>second_rel. map (\<lambda>ans. [rel, second_rel, ans]) answers)
                            else [])))
            else Inr [])
           (\<lambda>outs3. Inr (outs2 @ outs3))))
         (wiki_objects env ''forw'' e0 (Some rel) None None None))) rels) ent_combs"

text \<open>
  In the number solver \<^verbatim>\<open>ex_rels\<close> is bound only when no template relations are given:
  it is an optional list, and reading it unbound raises UnboundLocalError.
\<close>

definition cqwn_with_retry ::
  "'f env \<Rightarrow> int \<Rightarrow> string list list \<Rightarrow> string list \<Rightarrow> string list option \<Rightarrow> string
     \<Rightarrow> string list list result" where
  "cqwn_with_retry env template_num entity_ids top_rels ex_rels num =
     bindE (py_index entity_ids 0) (\<lambda>e0.
       let candidate_outputs = find_relevant_subgraph_cqwn env template_num
                                 (take (entities_to_leave env) e0) (take (rels_to_leave env) top_rels) num
       in if candidate_outputs = [] then
            bindE (py_index entity_ids 0) (\<lambda>e0.
              case ex_rels of
                None \<Rightarrow> Inl UnboundLocalError
              | Some ex \<Rightarrow> Inr (find_relevant_subgraph_cqwn env template_num
                                  (take (entities_to_leave env) e0) ex num))
          else Inr candidate_outputs)"

definition complex_question_with_number_solver ::
  "'f env \<Rightarrow> int \<Rightarrow> string \<Rightarrow> string list list \<Rightarrow> string list list option \<Rightarrow> string list list result" where
  "complex_question_with_number_solver env template_num question entity_ids rels_from_template =
     (let question_tokens = word_tokenize env question in
      bindE
        (case rels_from_template of
           Some rft \<Rightarrow> bindE (py_index rft 0) (\<lambda>t. Inr (butlast t, None))
         | None \<Rightarrow>
             bindE (py_index entity_ids 0) (\<lambda>e0.
               let ex_rels = List.bind (take (entities_to_leave env) e0) (\<lambda>entity.
                               wiki_rels env ''forw'' entity None None (Some ''direct'') None);
                   ex_rels = list_set env ex_rels;
                   scores = rank_rels env question ex_rels
               in Inr (map fst scores, Some ex_rels)))
        (\<lambda>(top_rels, ex_rels).
           let year = extract_year env question_tokens question;
               number = (if \<not> truthy year then extract_number env question_tokens question else None)
           in bindE
                (if truthy year
                 then cqwn_with_retry env template_num entity_ids top_rels ex_rels (the year)
                 else Inr [])
                (\<lambda>candidate_outputs.
                   if truthy number
                   then cqwn_with_retry env template_num entity_ids top_rels ex_rels (the number)
                   else Inr candidate_outputs)))"

definition complex_question_with_qualifier_solver ::
  "'f env \<Rightarrow> int \<Rightarrow> string \<Rightarrow> string list list \<Rightarrow> string list list option \<Rightarrow> string list list result" where
  "complex_question_with_qualifier_solver env template_num question entity_ids rels_from_template =
     bindE
       (case rels_from_template of
          Some rft \<Rightarrow> bindE (py_index rft 0) (\<lambda>t. Inr (butlast t))
        | None \<Rightarrow>
            bindE (py_index entity_ids 0) (\<lambda>e0.
              let ex_rels = List.bind (take (entities_to_leave env) e0) (\<lambda>entity.
                              wiki_rels env ''forw'' entity None None (Some ''direct'') None);
                  ex_rels = list_set env ex_rels;
                  scores = rank_rels env question ex_rels
              in Inr (map fst scores)))
       (\<lambda>top_rels.
          if length entity_ids > 1
          then find_relevant_subgraph_cqwq env template_num (make_entity_combs entity_ids)
                 (take (rels_to_leave env) top_rels)
          else Inr [])"

section \<open>Max/min solvers (templates 5 and 6)\<close>

text \<open>
  \<^verbatim>\<open>re.search(r'["]([^"]*)["]*', s).group(1)\<close>: the match starts at the first double
  quote of \<open>s\<close> and group 1 is the longest run of other characters after it. Without a
  double quote \<^verbatim>\<open>re.search\<close> returns \<^verbatim>\<open>None\<close> and \<^verbatim>\<open>.group\<close> raises AttributeError.
\<close>

definition dquote :: char where
  "dquote = CHR 0x22"

definition re_group1 :: "string \<Rightarrow> string result" where
  "re_group1 s =
     (case dropWhile (\<lambda>c. c \<noteq> dquote) s of
        [] \<Rightarrow> Inl AttributeError
      | _ # rest \<Rightarrow> Inr (takeWhile (\<lambda>c. c \<noteq> dquote) rest))"

definition parse_number :: "'f env \<Rightarrow> string \<Rightarrow> 'f result" where
  "parse_number env s =
     bindE (re_group1 s) (\<lambda>number.
       case py_float env number of None \<Rightarrow> Inl ValueError | Some v \<Rightarrow> Inr v)"

definition xsd_decimal :: string where
  "xsd_decimal = ''http://www.w3.org/2001/XMLSchema#decimal''"

definition find_relevant_subgraph_maxmin_one ::
  "'f env \<Rightarrow> string list \<Rightarrow> string list \<Rightarrow> (string \<times> string \<times> 'f) list result" where
  "find_relevant_subgraph_maxmin_one env entities_list rels =
     first_nonemptyE (\<lambda>entity.
       let objects_1 = wiki_objects env ''backw'' entity (Some ''P31'') None (Some ''direct'') None
       in first_nonemptyE (\<lambda>rel.
            concat_mapE (\<lambda>obj.
              let objects_2 = wiki_objects env ''forw'' obj (Some rel) None (Some ''direct'') (Some xsd_decimal)
              in if length objects_2 > 0
                 then bindE (parse_number env (objects_2 ! 0)) (\<lambda>number. Inr [(rel, obj, number)])
                 else Inr []) objects_1) rels) entities_list"

definition find_relevant_subgraph_maxmin_two ::
  "'f env \<Rightarrow> string list list \<Rightarrow> string list \<Rightarrow> string list
     \<Rightarrow> (string \<times> string \<times> string \<times> 'f) list result" where
  "find_relevant_subgraph_maxmin_two env ent_combs rels_1 rels_2 =
     first_nonemptyE (\<lambda>ent_comb.
       bindE (py_index ent_comb 0) (\<lambda>e0.
         let objects_1 = wiki_objects env ''backw'' e0 (Some ''P31'') None (Some ''direct'') None
         in first_nonemptyE (\<lambda>rel_1.
              bindE (py_index ent_comb 1) (\<lambda>e1.
                let objects_2 = wiki_objects env ''backw'' e1 (Some rel_1) None (Some ''direct'') None;
                    objects_intersect = list_set env (filter (\<lambda>x. x \<in> set objects_2) objects_1)
                in first_nonemptyE (\<lambda>rel_2.
                     concat_mapE (\<lambda>obj.
                       let objects_3 = wiki_objects env ''forw'' obj (Some rel_2) None (Some ''direct'')
                                         (Some xsd_decimal)
                       in if length objects_3 > 0
                          then bindE (parse_number env (objects_3 ! 0)) (\<lambda>number.
                                 Inr [(rel_1, rel_2, obj, number)])
                          else Inr []) objects_intersect) rels_2)) rels_1)) ent_combs"

definition maxmin_one_entity_solver ::
  "('f::linorder) env \<Rightarrow> string \<Rightarrow> string list \<Rightarrow> string list list option \<Rightarrow> string list list result" where
  "maxmin_one_entity_solver env question entities_list rels_from_template =
     bindE
       (case rels_from_template of
          Some rft \<Rightarrow> bindE (py_index rft 0) (\<lambda>t. Inr (butlast t))
        | None \<Rightarrow> Inr (map fst (rank_rels env question (rank_list_0 env))))
       (\<lambda>top_rels.
          let ascending = asc_desc env question in
          bindE (find_relevant_subgraph_maxmin_one env entities_list top_rels) (\<lambda>candidate_outputs.
            let reverse = (if ascending then False else True);
                candidate_outputs = py_sorted (\<lambda>x. snd (snd x)) reverse candidate_outputs;
                candidate_outputs = map (\<lambda>output. [fst output, fst (snd output)]) candidate_outputs
            in Inr (if candidate_outputs \<noteq> [] then [candidate_outputs ! 0] else candidate_outputs)))"

definition maxmin_two_entities_solver ::
  "('f::linorder) env \<Rightarrow> string \<Rightarrow> string list list \<Rightarrow> string list list option \<Rightarrow> string list list result" where
  "maxmin_two_entities_solver env question entity_ids rels_from_template =
     bindE
       (case rels_from_template of
          Some rft \<Rightarrow>
            bindE (py_index rft 0) (\<lambda>t0.
            bindE (py_index rft 1) (\<lambda>t1. Inr (butlast t0, butlast t1)))
        | None \<Rightarrow>
            (let ex_rels = List.bind entity_ids (\<lambda>entities_list.
                             List.bind entities_list (\<lambda>entity.
                               wiki_rels env ''backw'' entity None None (Some ''direct'') None));
                 ex_rels = list_set env ex_rels;
                 scores_1 = rank_rels env question ex_rels;
                 scores_2 = rank_rels env question (rank_list_1 env)
             in Inr (map fst scores_1, map fst scores_2)))
       (\<lambda>(top_rels_1, top_rels_2).
          bindE
            (if length entity_ids > 1 then
               bindE (find_relevant_subgraph_maxmin_two env (make_entity_combs entity_ids)
                        (take (rels_to_leave env) top_rels_1) (take (rels_to_leave env) top_rels_2))
                 (\<lambda>candidate_outputs.
                    let ascending = asc_desc env question;
                        reverse = (if ascending then True else False)
                    in Inr (py_sorted (\<lambda>x. snd (snd (snd x))) reverse candidate_outputs))
             else Inr [])
            (\<lambda>candidate_outputs.
               let candidate_outputs =
                     map (\<lambda>output. [fst output, fst (snd output), fst (snd (snd output))]) candidate_outputs
               in Inr (if candidate_outputs \<noteq> [] then [candidate_outputs ! 0] else candidate_outputs)))"

section \<open>Generic one- and two-hop solvers (template 7)\<close>

definition from_template_one_ent ::
  "'f env \<Rightarrow> string list list \<Rightarrow> string list list \<Rightarrow> string list list result" where
  "from_template_one_ent env entity_ids rels_from_template =
     (if length rels_from_template = 1 then
        (let relations = butlast (rels_from_template ! 0) in
         bindE (py_last (rels_from_template ! 0)) (\<lambda>direction.
         bindE (py_index entity_ids 0) (\<lambda>e0.
           Inr (first_nonempty (\<lambda>entity.
                  first_nonempty (\<lambda>relation.
                    let objects = wiki_objects env direction entity (Some relation) None (Some ''direct'') None
                    in if objects \<noteq> [] then [[relation, objects ! 0]] else []) relations) e0))))
      else if length rels_from_template = 2 then
        (let relations_1 = butlast (rels_from_template ! 0) in
         bindE (py_last (rels_from_template ! 0)) (\<lambda>direction_1.
         let relations_2 = butlast (rels_from_template ! 1) in
         bindE (py_last (rels_from_template ! 1)) (\<lambda>direction_2.
         bindE (py_index entity_ids 0) (\<lambda>e0.
           Inr (first_nonempty (\<lambda>entity.
                  first_nonempty (\<lambda>relation_1.
                    first_nonempty (\<lambda>object_1.
                      first_nonempty (\<lambda>relation_2.
                        let objects_2 = wiki_objects env direction_2 object_1 (Some relation_2) None
                                          (Some ''direct'') None
                        in if objects_2 \<noteq> [] then [[relation_1, relation_2, objects_2 ! 0]] else [])
                        relations_2)
                      (wiki_objects env direction_1 entity (Some relation_1) None (Some ''direct'') None))
                    relations_1) e0)))))
      else Inr [])"

definition from_template_two_ent ::
  "'f env \<Rightarrow> string list list \<Rightarrow> string list list \<Rightarrow> string list list result" where
  "from_template_two_ent env ent_combs rels_from_template =
     (if length rels_from_template = 1 then
        (let relations = butlast (rels_from_template ! 0) in
         bindE (py_last (rels_from_template ! 0)) (\<lambda>direction.
           first_nonemptyE (\<lambda>ent_comb.
             first_nonemptyE (\<lambda>relation.
               bindE (py_index ent_comb 1) (\<lambda>e1.
                 let objects_1 = wiki_objects env direction e1 (Some relation) None (Some ''direct'') None
                 in first_nonemptyE (\<lambda>object_1.
                      bindE (py_index ent_comb 0) (\<lambda>e0.
                        let objects_2 = wiki_objects env direction object_1 (Some ''P31'') (Some e0)
                                          (Some ''direct'') None
                        in Inr (if objects_2 \<noteq> [] then [[relation, objects_2 ! 0]] else [])))
                      objects_1)) relations) ent_combs))
      else if length rels_from_template = 2 then
        (let relations_1 = butlast (rels_from_template ! 0) in
         bindE (py_last (rels_from_template ! 0)) (\<lambda>direction_1.
         let relations_2 = butlast (rels_from_template ! 1) in
         bindE (py_last (rels_from_template ! 1)) (\<lambda>direction_2.
           first_nonemptyE (\<lambda>ent_comb.
             first_nonemptyE (\<lambda>relation_1.
               first_nonemptyE (\<lambda>relation_2.
                 bindE (py_index ent_comb 0) (\<lambda>e0.
                 let objects_1 = wiki_objects env direction_1 e0 (Some relation_1) None (Some ''direct'') None in
                 bindE (py_index ent_comb 1) (\<lambda>e1.
                 let objects_2 = wiki_objects env direction_2 e1 (Some relation_2) None (Some ''direct'') None;
                     objects_intersect = list_set env (filter (\<lambda>x. x \<in> set objects_2) objects_1)
                 in Inr (if objects_intersect \<noteq> []
                         then [[relation_1, relation_2, objects_intersect ! 0]] else []))))
                 relations_2) relations_1) ent_combs)))
      else Inr [])"

definition two_hop_two_ent :: "'f env \<Rightarrow> string \<Rightarrow> string list list \<Rightarrow> string list list result" where
  "two_hop_two_ent env question ent_combs =
     first_nonemptyE (\<lambda>ent_comb.
       bindE (py_index ent_comb 1) (\<lambda>e1.
         let ex_rels = wiki_rels env ''forw'' e1 None None (Some ''direct'') None
                       @ wiki_rels env ''backw'' e1 None None (Some ''direct'') None;
             ex_rels = list_set env ex_rels;
             scores = rank_rels env question ex_rels;
             top_rels = map fst scores
         in first_nonemptyE (\<lambda>rel.
              let objects_1 = wiki_objects env ''forw'' e1 (Some rel) None (Some ''direct'') None
                              @ wiki_objects env ''backw'' e1 (Some rel) None (Some ''direct'') None
              in first_nonemptyE (\<lambda>object_1.
                   bindE (py_index ent_comb 0) (\<lambda>e0.
                     let objects_2 = wiki_rels env ''forw'' object_1 None (Some e0) (Some ''direct'') None
                     in Inr (map (\<lambda>object_2.
                               if object_2 \<noteq> ''P31'' then [rel, object_2, object_1] else [rel, object_1])
                             objects_2)))
                   objects_1) top_rels)) ent_combs"

definition two_hop_cqwn :: "'f env \<Rightarrow> string list \<Rightarrow> string list \<Rightarrow> string \<Rightarrow> string list list" where
  "two_hop_cqwn env entities_list rels num =
     first_nonempty (\<lambda>entity.
       first_nonempty (\<lambda>rel.
         first_nonempty (\<lambda>ans.
           let second_rels = wiki_rels env ''forw'' ans None None (Some ''direct'') (Some num)
           in map (\<lambda>second_rel. [rel, second_rel, ans]) second_rels)
           (wiki_objects env ''forw'' entity (Some rel) None (Some ''direct'') None)) rels) entities_list"

definition two_hop_one_ent :: "'f env \<Rightarrow> string \<Rightarrow> string list \<Rightarrow> string list list" where
  "two_hop_one_ent env question entities_list =
     (let question_tokens = word_tokenize env question;
          year = extract_year env question_tokens question;
          number = (if \<not> truthy year then extract_number env question_tokens question else None);
          ents = take (entities_to_leave env) entities_list;
          ex_rels = List.bind ents (\<lambda>entity.
                      wiki_rels env ''forw'' entity None None (Some ''direct'') None
                      @ wiki_rels env ''backw'' entity None None (Some ''direct'') None);
          ex_rels = list_set env ex_rels;
          scores = rank_rels env question ex_rels;
          top_rels = map fst scores
      in if truthy year then two_hop_cqwn env ents top_rels (take 3 (the year))
         else if truthy number then two_hop_cqwn env ents top_rels (the number)
         else
           (let mid = (\<lambda>entity rel.
                         wiki_objects env ''forw'' entity (Some rel) None (Some ''direct'') None
                         @ wiki_objects env ''backw'' entity (Some rel) None (Some ''direct'') None);
                rels_2hop = take (rels_to_leave_2hop env) top_rels;
                ex_rels_2 = List.bind ents (\<lambda>entity.
                              List.bind rels_2hop (\<lambda>rel.
                                if rel \<noteq> ''P31'' then
                                  (let objects_mid = mid entity rel
                                   in if length objects_mid < 15
                                      then List.bind objects_mid (\<lambda>obj.
                                             wiki_rels env ''forw'' obj None None (Some ''direct'') None)
                                      else [])
                                else []));
                ex_rels_2 = list_set env ex_rels_2;
                scores_2 = rank_rels env question ex_rels_2;
                top_rels_2 = map fst scores_2;
                pass_1 = List.bind ents (\<lambda>entity.
                           List.bind rels_2hop (\<lambda>rel.
                             if rel \<noteq> ''P31'' then
                               (let objects = mid entity rel
                                in if objects \<noteq> [] then [[rel, objects ! 0]] else [])
                             else []));
                pass_2 = List.bind ents (\<lambda>entity.
                           List.bind rels_2hop (\<lambda>rel_1.
                             if rel_1 \<noteq> ''P31'' then
                               (let objects_mid = mid entity rel_1
                                in if objects_mid \<noteq> [] \<and> length objects_mid < 15
                                   then List.bind objects_mid (\<lambda>obj.
                                          List.bind (take (rels_to_leave_2hop env) top_rels_2) (\<lambda>rel_2.
                                            if rel_2 \<noteq> ''P31'' \<and> rel_1 \<noteq> rel_2 then
                                              (let objects = wiki_objects env ''forw'' obj (Some rel_2) None
                                                               (Some ''direct'') None
                                               in if objects \<noteq> [] then [[rel_1, rel_2, objects ! 0]] else [])
                                            else []))
                                   else [])
                             else []))
            in pass_1 @ pass_2))"

definition two_hop_solver ::
  "'f env \<Rightarrow> string \<Rightarrow> string list list \<Rightarrow> string list list option \<Rightarrow> string list list result" where
  "two_hop_solver env question entity_ids rels_from_template =
     bindE
       (if length entity_ids = 1 then
          (case rels_from_template of
             Some rft \<Rightarrow> from_template_one_ent env entity_ids rft
           | None \<Rightarrow> Inr (two_hop_one_ent env question (entity_ids ! 0)))
        else Inr [])
       (\<lambda>candidate_outputs.
          if length entity_ids \<ge> 2 then
            (let entity_ids_curr = [entity_ids ! 0, entity_ids ! 1];
                 ent_combs = make_entity_combs entity_ids_curr
             in case rels_from_template of
                  Some rft \<Rightarrow> from_template_two_ent env ent_combs rft
                | None \<Rightarrow>
                    bindE (two_hop_two_ent env question ent_combs) (\<lambda>candidate_outputs.
                      if candidate_outputs = [] then
                        (if length entity_ids = 3 then
                           (let entity_ids_curr = [entity_ids ! 0, entity_ids ! 2];
                                ent_combs = make_entity_combs entity_ids_curr
                            in two_hop_two_ent env question ent_combs)
                         else Inr (two_hop_one_ent env question (entity_ids ! 1)))
                      else Inr candidate_outputs))
          else Inr candidate_outputs)"

section \<open>The dispatcher\<close>

text \<open>
  \<^verbatim>\<open>self.template_num\<close> is read and assigned by the dispatcher: it is an argument, and the
  value it has when the method returns is the first component of the result.
\<close>

definition find_candidate_answers ::
  "('f::linorder) env \<Rightarrow> int \<Rightarrow> string \<Rightarrow> string list list \<Rightarrow> string list list option
     \<Rightarrow> (int \<times> string list list) result" where
  "find_candidate_answers env template_num question entity_ids rels_from_template =
     bindE
       (if template_num = 0 \<or> template_num = 1 then
          bindE (complex_question_with_number_solver env template_num question entity_ids None)
            (\<lambda>candidate_outputs.
               Inr (if candidate_outputs = [] then 7 else template_num, candidate_outputs))
        else Inr (template_num, []))
     (\<lambda>(template_num, candidate_outputs).
     bindE
       (if template_num = 2 \<or> template_num = 3 then
          bindE (complex_question_with_qualifier_solver env template_num question entity_ids None)
            (\<lambda>candidate_outputs.
               Inr (if candidate_outputs = [] then 7 else template_num, candidate_outputs))
        else Inr (template_num, candidate_outputs))
     (\<lambda>(template_num, candidate_outputs).
     bindE
       (if template_num = 4 then
          bindE (questions_with_count_solver env question entity_ids None)
            (\<lambda>candidate_outputs. Inr (template_num, candidate_outputs))
        else Inr (template_num, candidate_outputs))
     (\<lambda>(template_num, candidate_outputs).
     bindE
       (if template_num = 5 then
          bindE (py_index entity_ids 0) (\<lambda>e0.
          bindE (maxmin_one_entity_solver env question (take (entities_to_leave env) e0) rels_from_template)
            (\<lambda>candidate_outputs. Inr (template_num, candidate_outputs)))
        else Inr (template_num, candidate_outputs))
     (\<lambda>(template_num, candidate_outputs).
     bindE
       (if template_num = 6 then
          bindE (maxmin_two_entities_solver env question entity_ids rels_from_template)
            (\<lambda>candidate_outputs.
               if candidate_outputs = [] then
                 bindE (py_index entity_ids 0) (\<lambda>e0.
                 bindE (maxmin_one_entity_solver env question (take (entities_to_leave env) e0) None)
                   (\<lambda>candidate_outputs. Inr (5, candidate_outputs)))
               else Inr (template_num, candidate_outputs))
        else Inr (template_num, candidate_outputs))
     (\<lambda>(template_num, candidate_outputs).
       if template_num = 7 then
         bindE (two_hop_solver env question entity_ids rels_from_template)
           (\<lambda>candidate_outputs. Inr (template_num, candidate_outputs))
       else Inr (template_num, candidate_outputs))))))"

section \<open>Sample knowledge graphs\<close>

text \<open>
  Concrete environments on which the definitions are evaluated. The sample \<open>py_float\<close>
  accepts the nonempty strings of decimal digits, where it agrees with \<^verbatim>\<open>float\<close>, and
  rejects the other strings used below (\<^verbatim>\<open>float('abc')\<close> raises ValueError). The sample
  ranker keeps the order of its input, \<open>list_set\<close> is \<open>remdups\<close>, and the classifier
  \<open>asc_desc\<close> is true for the question \<^verbatim>\<open>lowest\<close> only. The bounds of \<open>env0\<close> are the
  defaults of the constructor.
\<close>

definition digit_of :: "char \<Rightarrow> int option" where
  "digit_of c =
     (if c \<in> set ''0123456789''
      then Some (int (length (takeWhile (\<lambda>d. d \<noteq> c) ''0123456789'')))
      else None)"

fun digits_value :: "string \<Rightarrow> int \<Rightarrow> int option" where
  "digits_value [] acc = Some acc"
| "digits_value (c # cs) acc =
     (case digit_of c of None \<Rightarrow> None | Some d \<Rightarrow> digits_value cs (10 * acc + d))"

definition sample_float :: "string \<Rightarrow> int option" where
  "sample_float s = (if s = [] then None else digits_value s 0)"

text \<open>The literal \<^verbatim>\<open>"s"^^<http://www.w3.org/2001/XMLSchema#decimal>\<close>.\<close>

definition decimal_literal :: "string \<Rightarrow> string" where
  "decimal_literal s = dquote # s @ dquote # ''^^<'' @ xsd_decimal @ ''>''"

definition env0 :: "int env" where
  "env0 = \<lparr> wiki_rels = (\<lambda>direction entity rel obj type_of_rel filter_obj. []),
            wiki_objects = (\<lambda>direction entity rel obj type_of_rel filter_obj. []),
            wiki_triplets = (\<lambda>direction entity rel obj type_of_rel filter_obj. []),
            rank_rels = (\<lambda>question rels. map (\<lambda>r. (r, 0)) rels),
            linker = (\<lambda>mention. ([], [])),
            word_tokenize = (\<lambda>question. []),
            extract_year = (\<lambda>tokens question. None),
            extract_number = (\<lambda>tokens question. None),
            asc_desc = (\<lambda>question. question = ''lowest''),
            py_float = sample_float,
            list_set = remdups,
            rank_list_0 = [''P2046''],
            rank_list_1 = [''P2046''],
            entities_to_leave = 5,
            rels_to_leave = 10,
            rels_to_leave_2hop = 7 \<rparr>"

text \<open>\<open>Q1\<close> has two objects under \<open>P1\<close> and one under \<open>P2\<close>, all forward.\<close>

definition count_kg :: "int env" where
  "count_kg = env0 \<lparr>
     wiki_rels := (\<lambda>direction entity rel obj type_of_rel filter_obj.
        if direction = ''forw'' \<and> entity = ''Q1'' then [''P1'', ''P2''] else []),
     wiki_objects := (\<lambda>direction entity rel obj type_of_rel filter_obj.
        if direction = ''forw'' \<and> entity = ''Q1'' \<and> rel = Some ''P1'' then [''A'', ''B'']
        else if direction = ''forw'' \<and> entity = ''Q1'' \<and> rel = Some ''P2'' then [''C'']
        else []) \<rparr>"

text \<open>\<open>A\<close> and \<open>B\<close> are instances of \<open>Q1\<close> located in \<open>Q2\<close> (\<open>P17\<close>), with areas
  (\<open>P2046\<close>) 1 and 2.\<close>

definition maxmin_kg :: "int env" where
  "maxmin_kg = env0 \<lparr>
     wiki_rels := (\<lambda>direction entity rel obj type_of_rel filter_obj.
        if direction = ''backw'' \<and> entity = ''Q2'' then [''P17''] else []),
     wiki_objects := (\<lambda>direction entity rel obj type_of_rel filter_obj.
        if direction = ''backw'' \<and> entity = ''Q1'' \<and> rel = Some ''P31'' then [''A'', ''B'']
        else if direction = ''backw'' \<and> entity = ''Q2'' \<and> rel = Some ''P17'' then [''A'', ''B'']
        else if direction = ''forw'' \<and> entity = ''A'' \<and> rel = Some ''P2046''
                \<and> filter_obj = Some xsd_decimal then [decimal_literal ''1'']
        else if direction = ''forw'' \<and> entity = ''B'' \<and> rel = Some ''P2046''
                \<and> filter_obj = Some xsd_decimal then [decimal_literal ''2'']
        else []) \<rparr>"

text \<open>The instance \<open>A\<close> of \<open>Q1\<close>, located in \<open>Q3\<close>, has an area literal without
  double quotes; the instance \<open>C\<close> of \<open>Q2\<close>, located in \<open>Q4\<close>, a quoted one that is
  not a number. \<open>Q3\<close> and \<open>Q4\<close> have the incoming relation \<open>P17\<close>.\<close>

definition malformed_kg :: "int env" where
  "malformed_kg = env0 \<lparr>
     wiki_rels := (\<lambda>direction entity rel obj type_of_rel filter_obj.
        if direction = ''backw'' \<and> (entity = ''Q3'' \<or> entity = ''Q4'') then [''P17''] else []),
     wiki_objects := (\<lambda>direction entity rel obj type_of_rel filter_obj.
        if direction = ''backw'' \<and> entity = ''Q1'' \<and> rel = Some ''P31'' then [''A'']
        else if direction = ''backw'' \<and> entity = ''Q2'' \<and> rel = Some ''P31'' then [''C'']
        else if direction = ''backw'' \<and> entity = ''Q3'' \<and> rel = Some ''P17'' then [''A'']
        else if direction = ''backw'' \<and> entity = ''Q4'' \<and> rel = Some ''P17'' then [''C'']
        else if direction = ''forw'' \<and> entity = ''A'' \<and> rel = Some ''P2046''
                \<and> filter_obj = Some xsd_decimal then [''12'']
        else if direction = ''forw'' \<and> entity = ''C'' \<and> rel = Some ''P2046''
                \<and> filter_obj = Some xsd_decimal then [decimal_literal ''abc'']
        else []) \<rparr>"

text \<open>\<open>Q2\<close> reaches \<open>Y\<close> through \<open>P1\<close>, and \<open>Y\<close> is related to \<open>Q1\<close> by \<open>P9\<close> and
  by \<open>P31\<close>.\<close>

definition arity_kg :: "int env" where
  "arity_kg = env0 \<lparr>
     wiki_rels := (\<lambda>direction entity rel obj type_of_rel filter_obj.
        if direction = ''forw'' \<and> entity = ''Q2'' \<and> obj = None then [''P1'']
        else if direction = ''forw'' \<and> entity = ''Y'' \<and> obj = Some ''Q1'' then [''P9'', ''P31'']
        else []),
     wiki_objects := (\<lambda>direction entity rel obj type_of_rel filter_obj.
        if direction = ''forw'' \<and> entity = ''Q2'' \<and> rel = Some ''P1'' then [''Y'']
        else []) \<rparr>"

text \<open>\<open>Q2\<close> reaches \<open>Y\<close> through \<open>P1\<close>; \<open>Y\<close> is unrelated to \<open>Q1\<close>, and \<open>Q3\<close> has no
  relation at all.\<close>

definition retry_kg :: "int env" where
  "retry_kg = env0 \<lparr>
     wiki_rels := (\<lambda>direction entity rel obj type_of_rel filter_obj.
        if direction = ''forw'' \<and> entity = ''Q2'' \<and> obj = None then [''P1''] else []),
     wiki_objects := (\<lambda>direction entity rel obj type_of_rel filter_obj.
        if direction = ''forw'' \<and> entity = ''Q2'' \<and> rel = Some ''P1'' then [''Y'']
        else []) \<rparr>"

text \<open>Both relation bounds are 1. \<open>Q2\<close> has the relations \<open>P1\<close> and \<open>P2\<close>, ranked in
  this order; only the object \<open>W\<close> reached through \<open>P2\<close> is related to \<open>Q1\<close>.\<close>

definition trunc_kg :: "int env" where
  "trunc_kg = env0 \<lparr>
     wiki_rels := (\<lambda>direction entity rel obj type_of_rel filter_obj.
        if direction = ''forw'' \<and> entity = ''Q2'' \<and> obj = None then [''P1'', ''P2'']
        else if direction = ''forw'' \<and> entity = ''W'' \<and> obj = Some ''Q1'' then [''P9'']
        else []),
     wiki_objects := (\<lambda>direction entity rel obj type_of_rel filter_obj.
        if direction = ''forw'' \<and> entity = ''Q2'' \<and> rel = Some ''P1'' then [''X'']
        else if direction = ''forw'' \<and> entity = ''Q2'' \<and> rel = Some ''P2'' then [''W'']
        else []),
     rels_to_leave := 1,
     rels_to_leave_2hop := 1 \<rparr>"

text \<open>The entity bound is 1. The linker resolves the mention \<open>m\<close> to \<open>Q1\<close> and \<open>Q2\<close>;
  only \<open>Q2\<close>, the second candidate, has an object under \<open>P1\<close> and an incoming relation
  \<open>P17\<close>. \<open>A\<close> is an instance of \<open>Q1\<close> located in \<open>Q3\<close>, with area 5.\<close>

definition cap_kg :: "int env" where
  "cap_kg = env0 \<lparr>
     wiki_rels := (\<lambda>direction entity rel obj type_of_rel filter_obj.
        if direction = ''backw'' \<and> entity = ''Q2'' then [''P17''] else []),
     wiki_objects := (\<lambda>direction entity rel obj type_of_rel filter_obj.
        if direction = ''forw'' \<and> entity = ''Q2'' \<and> rel = Some ''P1'' then [''Z'']
        else if direction = ''backw'' \<and> entity = ''Q1'' \<and> rel = Some ''P31'' then [''A'']
        else if direction = ''backw'' \<and> entity = ''Q3'' \<and> rel = Some ''P17'' then [''A'']
        else if direction = ''forw'' \<and> entity = ''A'' \<and> rel = Some ''P2046''
                \<and> filter_obj = Some xsd_decimal then [decimal_literal ''5'']
        else []),
     linker := (\<lambda>mention. if mention = ''m'' then ([''Q1'', ''Q2''], [1, 1]) else ([], [])),
     entities_to_leave := 1 \<rparr>"

text \<open>The question carries the year 2001. \<open>E1\<close> reaches the statement node \<open>S1\<close> through
  \<open>P54\<close>; \<open>S1\<close> has the statement value \<open>Q7\<close>, the qualifier \<open>P580\<close> matching 2001, and
  the same qualifier towards \<open>E2\<close>.\<close>

definition statement_kg :: "int env" where
  "statement_kg = env0 \<lparr>
     wiki_rels := (\<lambda>direction entity rel obj type_of_rel filter_obj.
        if direction = ''forw'' \<and> entity = ''E1'' \<and> type_of_rel = Some ''direct'' then [''P54'']
        else if direction = ''forw'' \<and> entity = ''S1'' \<and> type_of_rel = Some ''qualifier''
                \<and> filter_obj = Some ''2001'' then [''P580'']
        else if direction = ''backw'' \<and> entity = ''E2'' \<and> obj = Some ''S1''
                \<and> type_of_rel = Some ''qualifier'' then [''P580'']
        else []),
     wiki_objects := (\<lambda>direction entity rel obj type_of_rel filter_obj.
        if direction = ''forw'' \<and> entity = ''E1'' \<and> rel = Some ''P54'' \<and> type_of_rel = None then [''S1'']
        else if direction = ''forw'' \<and> entity = ''S1'' \<and> rel = Some ''P54''
                \<and> type_of_rel = Some ''statement'' then [''Q7'']
        else []),
     extract_year := (\<lambda>tokens question. Some ''2001'') \<rparr>"

text \<open>The question carries the year 1999. \<open>E1\<close> reaches the statement node \<open>S1\<close> through
  \<open>P54\<close>, and \<open>S1\<close> has the statement value \<open>Q7\<close>, but its qualifier \<open>P580\<close> matches 2001
  only and it has no qualifier towards \<open>E2\<close>. As direct objects, \<open>E1\<close> reaches \<open>Q9\<close> through
  \<open>P54\<close>, which has the relation \<open>P571\<close> to a literal matching the decade \<open>199\<close>, and \<open>E2\<close>
  reaches \<open>Q5\<close> through \<open>P17\<close>, which is related to \<open>E1\<close> by \<open>P9\<close>.\<close>

definition wrong_year_kg :: "int env" where
  "wrong_year_kg = env0 \<lparr>
     wiki_rels := (\<lambda>direction entity rel obj type_of_rel filter_obj.
        if direction = ''forw'' \<and> entity = ''E1'' \<and> obj = None \<and> type_of_rel = Some ''direct''
           \<and> filter_obj = None then [''P54'']
        else if direction = ''forw'' \<and> entity = ''S1'' \<and> type_of_rel = Some ''qualifier''
                \<and> filter_obj = Some ''2001'' then [''P580'']
        else if direction = ''forw'' \<and> entity = ''Q9'' \<and> type_of_rel = Some ''direct''
                \<and> filter_obj = Some ''199'' then [''P571'']
        else if direction = ''forw'' \<and> entity = ''E2'' \<and> obj = None \<and> type_of_rel = Some ''direct''
                \<and> filter_obj = None then [''P17'']
        else if direction = ''forw'' \<and> entity = ''Q5'' \<and> obj = Some ''E1''
                \<and> type_of_rel = Some ''direct'' then [''P9'']
        else []),
     wiki_objects := (\<lambda>direction entity rel obj type_of_rel filter_obj.
        if direction = ''forw'' \<and> entity = ''E1'' \<and> rel = Some ''P54'' \<and> type_of_rel = None then [''S1'']
        else if direction = ''forw'' \<and> entity = ''S1'' \<and> rel = Some ''P54''
                \<and> type_of_rel = Some ''statement'' then [''Q7'']
        else if direction = ''forw'' \<and> entity = ''E1'' \<and> rel = Some ''P54''
                \<and> type_of_rel = Some ''direct'' then [''Q9'']
        else if direction = ''forw'' \<and> entity = ''E2'' \<and> rel = Some ''P17''
                \<and> type_of_rel = Some ''direct'' then [''Q5'']
        else []),
     extract_year := (\<lambda>tokens question. Some ''1999'') \<rparr>"

section \<open>Basic facts\<close>

lemma bindE_simps [simp]:
  "bindE (Inl e) f = Inl e"
  "bindE (Inr x) f = f x"
  by (simp_all add: bindE_def)

lemma bindE_eq_Inr: "bindE m f = Inr y \<longleftrightarrow> (\<exists>x. m = Inr x \<and> f x = Inr y)"
  by (cases m) simp_all

text \<open>What holds of every iteration's items holds of the items a loop returns.\<close>

lemma concat_mapE_all:
  assumes "concat_mapE f xs = Inr zs"
    and "\<And>x ys. x \<in> set xs \<Longrightarrow> f x = Inr ys \<Longrightarrow> \<forall>t\<in>set ys. P t"
  shows "\<forall>t\<in>set zs. P t"
  using assms
proof (induction xs arbitrary: zs)
  case Nil
  then show ?case by simp
next
  case (Cons a xs)
  from Cons.prems(1) obtain ys zs' where a: "f a = Inr ys"
    and r: "concat_mapE f xs = Inr zs'" and z: "zs = ys @ zs'"
    by (auto split: sum.splits)
  have "\<forall>t\<in>set ys. P t"
    using Cons.prems(2) [of a ys] a by simp
  moreover have "\<forall>t\<in>set zs'. P t"
  proof (rule Cons.IH [OF r])
    fix x ys
    assume "x \<in> set xs" and "f x = Inr ys"
    then show "\<forall>t\<in>set ys. P t"
      using Cons.prems(2) [of x ys] by simp
  qed
  ultimately show ?case
    using z by auto
qed

lemma first_nonemptyE_all:
  assumes "first_nonemptyE f xs = Inr zs"
    and "\<And>x ys. x \<in> set xs \<Longrightarrow> f x = Inr ys \<Longrightarrow> \<forall>t\<in>set ys. P t"
  shows "\<forall>t\<in>set zs. P t"
  using assms
proof (induction xs arbitrary: zs)
  case Nil
  then show ?case by simp
next
  case (Cons a xs)
  from Cons.prems(1) obtain ys where a: "f a = Inr ys"
    and r: "if ys \<noteq> [] then zs = ys else first_nonemptyE f xs = Inr zs"
    by (auto split: sum.splits if_splits)
  show ?case
  proof (cases "ys \<noteq> []")
    case True
    with r Cons.prems(2) [of a ys] a show ?thesis by simp
  next
    case False
    with r have "first_nonemptyE f xs = Inr zs" by simp
    then show ?thesis
    proof (rule Cons.IH)
      fix x ys
      assume "x \<in> set xs" and "f x = Inr ys"
      then show "\<forall>t\<in>set ys. P t"
        using Cons.prems(2) [of x ys] by simp
    qed
  qed
qed

lemma first_nonempty_all:
  assumes "\<And>x. x \<in> set xs \<Longrightarrow> \<forall>t\<in>set (f x). P t"
  shows "\<forall>t\<in>set (first_nonempty f xs). P t"
  using assms
proof (induction xs)
  case Nil
  then show ?case by simp
next
  case (Cons a xs)
  have "\<forall>t\<in>set (f a). P t"
    using Cons.prems [of a] by simp
  moreover have "\<forall>t\<in>set (first_nonempty f xs). P t"
  proof (rule Cons.IH)
    fix x
    assume "x \<in> set xs"
    then show "\<forall>t\<in>set (f x). P t"
      using Cons.prems [of x] by simp
  qed
  ultimately show ?case
    by (simp add: Let_def)
qed

lemma cqwn_arity:
  "t \<in> set (find_relevant_subgraph_cqwn env template_num entities_list rels num) \<Longrightarrow> length t = 3"
  by (auto simp: find_relevant_subgraph_cqwn_def set_list_bind Let_def split: if_splits)

lemma cqwn_with_retry_arity:
  "cqwn_with_retry env template_num entity_ids top_rels ex_rels num = Inr outs \<Longrightarrow> t \<in> set outs
   \<Longrightarrow> length t = 3"
  by (auto simp: cqwn_with_retry_def bindE_eq_Inr Let_def dest: cqwn_arity
           split: if_splits option.splits)

lemma number_solver_arity:
  "complex_question_with_number_solver env template_num question entity_ids rels_from_template = Inr outs
   \<Longrightarrow> t \<in> set outs \<Longrightarrow> length t = 3"
  by (auto simp: complex_question_with_number_solver_def bindE_eq_Inr Let_def
           dest: cqwn_with_retry_arity split: if_splits option.splits prod.splits)

lemma cqwq_arity:
  "find_relevant_subgraph_cqwq env template_num ent_combs rels = Inr outs
   \<Longrightarrow> \<forall>t\<in>set outs. length t = 3"
  unfolding find_relevant_subgraph_cqwq_def
  apply (erule concat_mapE_all)
  apply (erule concat_mapE_all)
  apply (simp only: bindE_eq_Inr, elim exE conjE)
  apply (erule concat_mapE_all)
  apply (auto simp: bindE_eq_Inr Let_def set_list_bind split: if_splits)
  done

lemma qualifier_solver_arity:
  "complex_question_with_qualifier_solver env template_num question entity_ids rels_from_template = Inr outs
   \<Longrightarrow> t \<in> set outs \<Longrightarrow> length t = 3"
  by (auto simp: complex_question_with_qualifier_solver_def bindE_eq_Inr Let_def
           dest: cqwq_arity [THEN bspec] split: if_splits option.splits)

lemma count_rels_arity: "t \<in> set (count_rels env entity pairs answers) \<Longrightarrow> length t = 2"
  by (induction env entity pairs answers rule: count_rels.induct) (auto simp: Let_def split: if_splits)

lemma count_solver_arity:
  "questions_with_count_solver env question entity_ids rels_from_template = Inr outs
   \<Longrightarrow> t \<in> set outs \<Longrightarrow> length t = 2"
  by (auto simp: questions_with_count_solver_def bindE_eq_Inr set_list_bind
           dest: count_rels_arity split: option.splits prod.splits)

lemma maxmin_one_arity:
  assumes "maxmin_one_entity_solver env question entities_list rels_from_template = Inr outs"
  shows "length outs \<le> 1 \<and> (\<forall>t\<in>set outs. length t = 2)"
proof -
  have "\<And>(cs :: (string \<times> string \<times> 'a) list). cs \<noteq> [] \<Longrightarrow> length (map (\<lambda>output. [fst output, fst (snd output)]) cs ! 0) = 2"
    by (case_tac cs) auto
  with assms show ?thesis
    by (auto simp: maxmin_one_entity_solver_def bindE_eq_Inr Let_def split: if_splits)
qed

lemma maxmin_two_arity:
  assumes "maxmin_two_entities_solver env question entity_ids rels_from_template = Inr outs"
  shows "length outs \<le> 1 \<and> (\<forall>t\<in>set outs. length t = 3)"
proof -
  have "\<And>(cs :: (string \<times> string \<times> string \<times> 'a) list). cs \<noteq> [] \<Longrightarrow>
          length (map (\<lambda>output. [fst output, fst (snd output), fst (snd (snd output))]) cs ! 0) = 3"
    by (case_tac cs) auto
  with assms show ?thesis
    by (auto simp: maxmin_two_entities_solver_def bindE_eq_Inr Let_def split: if_splits prod.splits)
qed


lemma from_template_one_ent_arity:
  "from_template_one_ent env entity_ids rft = Inr outs
   \<Longrightarrow> \<forall>t\<in>set outs. length t = 2 \<or> length t = 3"
  unfolding from_template_one_ent_def
  apply (simp add: bindE_eq_Inr Let_def split: if_splits)
   apply (elim exE conjE, hypsubst, (rule first_nonempty_all)+, simp)
  apply (elim exE conjE, hypsubst, (rule first_nonempty_all)+, simp)
  done

lemma from_template_two_ent_arity:
  "from_template_two_ent env ent_combs rft = Inr outs
   \<Longrightarrow> \<forall>t\<in>set outs. length t = 2 \<or> length t = 3"
  unfolding from_template_two_ent_def
  apply (simp add: bindE_eq_Inr Let_def split: if_splits)
   apply (elim exE conjE)
   apply (erule first_nonemptyE_all)
   apply (erule first_nonemptyE_all)
   apply (simp only: bindE_eq_Inr, elim exE conjE)
   apply (erule first_nonemptyE_all)
   apply (auto simp: bindE_eq_Inr split: if_splits)[1]
  apply (elim exE conjE)
  apply (erule first_nonemptyE_all)
  apply (erule first_nonemptyE_all)
  apply (erule first_nonemptyE_all)
  apply (auto simp: bindE_eq_Inr split: if_splits)
  done

lemma two_hop_two_ent_arity:
  "two_hop_two_ent env question ent_combs = Inr outs
   \<Longrightarrow> \<forall>t\<in>set outs. length t = 2 \<or> length t = 3"
  unfolding two_hop_two_ent_def
  apply (erule first_nonemptyE_all)
  apply (simp only: bindE_eq_Inr Let_def, elim exE conjE)
  apply (erule first_nonemptyE_all)
  apply (erule first_nonemptyE_all)
  apply (auto simp: bindE_eq_Inr split: if_splits)
  done

lemma two_hop_cqwn_arity:
  "\<forall>t\<in>set (two_hop_cqwn env entities_list rels num). length t = 3"
  unfolding two_hop_cqwn_def
  by (rule first_nonempty_all)+ (simp add: Let_def)

lemma two_hop_one_ent_arity:
  "\<forall>t\<in>set (two_hop_one_ent env question entities_list). length t = 2 \<or> length t = 3"
  unfolding two_hop_one_ent_def
  by (auto simp: Let_def set_list_bind dest: two_hop_cqwn_arity [THEN bspec] split: if_splits)

lemma two_hop_solver_arity:
  "two_hop_solver env question entity_ids rft = Inr outs
   \<Longrightarrow> \<forall>t\<in>set outs. length t = 2 \<or> length t = 3"
  unfolding two_hop_solver_def
  by (auto simp: bindE_eq_Inr Let_def
           dest: two_hop_one_ent_arity [THEN bspec] two_hop_two_ent_arity [THEN bspec]
                 from_template_one_ent_arity [THEN bspec] from_template_two_ent_arity [THEN bspec]
           split: if_splits option.splits)


lemma parse_number_no_quote:
  assumes "dquote \<notin> set s"
  shows "parse_number env s = Inl AttributeError"
proof -
  have d: "dropWhile (\<lambda>c. c \<noteq> dquote) s = []"
    using assms by auto
  show ?thesis
    unfolding parse_number_def re_group1_def d by simp
qed












lemma set_py_sorted [simp]: "set (py_sorted key reverse xs) = set xs"
  by (simp add: py_sorted_def)



section \<open>The sort order of the max/min solvers\<close>

text \<open>
  The first element of \<open>py_sorted\<close> is an element of the list with the least key, or with
  the greatest key when \<open>reverse\<close> is set. Hence, for every input, the one-entity solver
  returns a candidate of minimum value when the classifier says ascending and of maximum
  value otherwise, and the two-entity solver does the opposite.
\<close>

lemma sort_key_first_min:
  assumes "xs \<noteq> []"
  shows "sort_key key xs ! 0 \<in> set xs \<and> (\<forall>x\<in>set xs. key (sort_key key xs ! 0) \<le> key x)"
proof -
  obtain y ys where ys: "sort_key key xs = y # ys"
    using assms by (cases "sort_key key xs") (auto dest: arg_cong [where f = length])
  have "set (y # ys) = set xs"
    using ys set_sort [of key xs] by simp
  moreover have "sorted (map key (y # ys))"
    using ys sorted_sort_key [of key xs] by simp
  ultimately show ?thesis
    using ys by auto
qed

lemma sort_key_last_max:
  assumes "xs \<noteq> []"
  shows "rev (sort_key key xs) ! 0 \<in> set xs \<and> (\<forall>x\<in>set xs. key x \<le> key (rev (sort_key key xs) ! 0))"
proof -
  have ne: "sort_key key xs \<noteq> []"
    using assms by (auto dest: arg_cong [where f = length])
  then have l: "rev (sort_key key xs) ! 0 = last (sort_key key xs)"
    by (simp add: hd_rev flip: hd_conv_nth)
  from last_in_set [OF ne] have m: "last (sort_key key xs) \<in> set xs"
    by simp
  have "\<forall>x\<in>set (sort_key key xs). key x \<le> key (last (sort_key key xs))"
  proof
    fix x
    assume "x \<in> set (sort_key key xs)"
    then obtain i where i: "i < length (sort_key key xs)" "sort_key key xs ! i = x"
      by (metis in_set_conv_nth)
    have "sorted (map key (sort_key key xs))"
      by (rule sorted_sort_key)
    then have "map key (sort_key key xs) ! i \<le> map key (sort_key key xs) ! (length (sort_key key xs) - 1)"
      using i ne by (intro sorted_nth_mono) auto
    then show "key x \<le> key (last (sort_key key xs))"
      using i ne by (simp add: last_conv_nth)
  qed
  with l m show ?thesis
    by simp
qed

lemma py_sorted_first:
  assumes "xs \<noteq> []"
  shows "py_sorted key reverse xs ! 0 \<in> set xs
       \<and> (if reverse then \<forall>x\<in>set xs. key x \<le> key (py_sorted key reverse xs ! 0)
           else \<forall>x\<in>set xs. key (py_sorted key reverse xs ! 0) \<le> key x)"
proof (cases reverse)
  case True
  from assms have "rev xs \<noteq> []" by simp
  from sort_key_last_max [OF this, of key] True show ?thesis
    by (simp add: py_sorted_def)
next
  case False
  with sort_key_first_min [OF assms, of key] show ?thesis
    by (simp add: py_sorted_def)
qed

lemma maxmin_one_entity_solver_extremum:
  assumes "find_relevant_subgraph_maxmin_one env entities_list
             (map fst (rank_rels env question (rank_list_0 env))) = Inr cands"
    and "cands \<noteq> []"
  shows "\<exists>rel obj v. (rel, obj, v) \<in> set cands
           \<and> maxmin_one_entity_solver env question entities_list None = Inr [[rel, obj]]
           \<and> (if asc_desc env question then \<forall>c\<in>set cands. v \<le> snd (snd c)
               else \<forall>c\<in>set cands. snd (snd c) \<le> v)"
proof -
  let ?reverse = "if asc_desc env question then False else True"
  let ?s = "py_sorted (\<lambda>x. snd (snd x)) ?reverse cands"
  obtain rel obj v where c: "?s ! 0 = (rel, obj, v)"
    by (cases "?s ! 0") auto
  have ne: "?s \<noteq> []"
    using assms(2) by (auto simp: py_sorted_def dest: arg_cong [where f = length])
  have "maxmin_one_entity_solver env question entities_list None = Inr [[rel, obj]]"
    using assms(1) ne c by (simp add: maxmin_one_entity_solver_def Let_def nth_map)
  moreover from py_sorted_first [OF assms(2), of "\<lambda>x. snd (snd x)" ?reverse] c
  have "(rel, obj, v) \<in> set cands"
    and "if asc_desc env question then \<forall>c\<in>set cands. v \<le> snd (snd c)
         else \<forall>c\<in>set cands. snd (snd c) \<le> v"
    by (auto split: if_splits)
  ultimately show ?thesis
    by blast
qed

lemma maxmin_two_entities_solver_extremum:
  assumes "1 < length entity_ids"
    and "find_relevant_subgraph_maxmin_two env (make_entity_combs entity_ids)
           (take (rels_to_leave env) (butlast t0)) (take (rels_to_leave env) (butlast t1)) = Inr cands"
    and "cands \<noteq> []"
  shows "\<exists>rel_1 rel_2 obj v. (rel_1, rel_2, obj, v) \<in> set cands
           \<and> maxmin_two_entities_solver env question entity_ids (Some (t0 # t1 # rft))
               = Inr [[rel_1, rel_2, obj]]
           \<and> (if asc_desc env question then \<forall>c\<in>set cands. snd (snd (snd c)) \<le> v
               else \<forall>c\<in>set cands. v \<le> snd (snd (snd c)))"
proof -
  let ?reverse = "if asc_desc env question then True else False"
  let ?s = "py_sorted (\<lambda>x. snd (snd (snd x))) ?reverse cands"
  obtain rel_1 rel_2 obj v where c: "?s ! 0 = (rel_1, rel_2, obj, v)"
    by (cases "?s ! 0") auto
  have ne: "?s \<noteq> []"
    using assms(3) by (auto simp: py_sorted_def dest: arg_cong [where f = length])
  have "maxmin_two_entities_solver env question entity_ids (Some (t0 # t1 # rft))
          = Inr [[rel_1, rel_2, obj]]"
    using assms(1,2) ne c by (simp add: maxmin_two_entities_solver_def Let_def nth_map py_index_def)
  moreover from py_sorted_first [OF assms(3), of "\<lambda>x. snd (snd (snd x))" ?reverse] c
  have "(rel_1, rel_2, obj, v) \<in> set cands"
    and "if asc_desc env question then \<forall>c\<in>set cands. snd (snd (snd c)) \<le> v
         else \<forall>c\<in>set cands. v \<le> snd (snd (snd c))"
    by (auto split: if_splits)
  ultimately show ?thesis
    by blast
qed

text \<open>For template 4 the dispatcher's result does not depend on the template relations.\<close>

lemma dispatcher_ignores_template_rels:
  "find_candidate_answers env 4 question entity_ids rels_from_template
     = find_candidate_answers env 4 question entity_ids None"
  by (cases "questions_with_count_solver env question entity_ids None")
     (simp_all add: find_candidate_answers_def)

section \<open>The dispatcher's fallback table\<close>

text \<open>
  C3. When the strategy of template 0 or 1 (the number solver) or of template 2 or 3 (the
  qualifier solver) returns no candidate, the dispatcher sets the template to 7 and its
  result is that of the generic two-hop solver on the same question, entity ids and
  template relations. When the two-entity max/min solver of template 6 returns no
  candidate, the template becomes 5 and the result is that of the one-entity max/min
  solver on the first entity list. Templates 4, 5 and 7 return their own strategy's
  result, empty or not, and keep their template number. When the strategy of a template
  0 to 3 or 6 finds candidates, they are the result and the template number is kept;
  when it raises, the dispatcher raises the same exception; any other template number
  gives the empty result.
\<close>

theorem dispatcher_fallback_table:
  "((template_num = 0 \<or> template_num = 1)
      \<and> complex_question_with_number_solver env template_num question entity_ids None = Inr []
     \<longrightarrow> find_candidate_answers env template_num question entity_ids rels_from_template
          = bindE (two_hop_solver env question entity_ids rels_from_template) (\<lambda>outs. Inr (7, outs)))
   \<and> ((template_num = 2 \<or> template_num = 3)
      \<and> complex_question_with_qualifier_solver env template_num question entity_ids None = Inr []
     \<longrightarrow> find_candidate_answers env template_num question entity_ids rels_from_template
          = bindE (two_hop_solver env question entity_ids rels_from_template) (\<lambda>outs. Inr (7, outs)))
   \<and> (template_num = 6
      \<and> maxmin_two_entities_solver env question entity_ids rels_from_template = Inr []
     \<longrightarrow> find_candidate_answers env template_num question entity_ids rels_from_template
          = bindE (py_index entity_ids 0) (\<lambda>e0.
              bindE (maxmin_one_entity_solver env question (take (entities_to_leave env) e0) None)
                (\<lambda>outs. Inr (5, outs))))
   \<and> (template_num = 4
     \<longrightarrow> find_candidate_answers env template_num question entity_ids rels_from_template
          = bindE (questions_with_count_solver env question entity_ids None) (\<lambda>outs. Inr (4, outs)))
   \<and> (template_num = 5
     \<longrightarrow> find_candidate_answers env template_num question entity_ids rels_from_template
          = bindE (py_index entity_ids 0) (\<lambda>e0.
              bindE (maxmin_one_entity_solver env question (take (entities_to_leave env) e0)
                       rels_from_template)
                (\<lambda>outs. Inr (5, outs))))
   \<and> (template_num = 7
     \<longrightarrow> find_candidate_answers env template_num question entity_ids rels_from_template
          = bindE (two_hop_solver env question entity_ids rels_from_template) (\<lambda>outs. Inr (7, outs)))
   \<and> ((template_num = 0 \<or> template_num = 1)
      \<and> complex_question_with_number_solver env template_num question entity_ids None = Inr outs
      \<and> outs \<noteq> []
     \<longrightarrow> find_candidate_answers env template_num question entity_ids rels_from_template
          = Inr (template_num, outs))
   \<and> ((template_num = 2 \<or> template_num = 3)
      \<and> complex_question_with_qualifier_solver env template_num question entity_ids None = Inr outs
      \<and> outs \<noteq> []
     \<longrightarrow> find_candidate_answers env template_num question entity_ids rels_from_template
          = Inr (template_num, outs))
   \<and> (template_num = 6
      \<and> maxmin_two_entities_solver env question entity_ids rels_from_template = Inr outs
      \<and> outs \<noteq> []
     \<longrightarrow> find_candidate_answers env template_num question entity_ids rels_from_template
          = Inr (6, outs))
   \<and> ((template_num = 0 \<or> template_num = 1)
      \<and> complex_question_with_number_solver env template_num question entity_ids None = Inl e
     \<longrightarrow> find_candidate_answers env template_num question entity_ids rels_from_template = Inl e)
   \<and> ((template_num = 2 \<or> template_num = 3)
      \<and> complex_question_with_qualifier_solver env template_num question entity_ids None = Inl e
     \<longrightarrow> find_candidate_answers env template_num question entity_ids rels_from_template = Inl e)
   \<and> (template_num = 6
      \<and> maxmin_two_entities_solver env question entity_ids rels_from_template = Inl e
     \<longrightarrow> find_candidate_answers env template_num question entity_ids rels_from_template = Inl e)
   \<and> (template_num \<noteq> 0 \<and> template_num \<noteq> 1 \<and> template_num \<noteq> 2 \<and> template_num \<noteq> 3
      \<and> template_num \<noteq> 4 \<and> template_num \<noteq> 5 \<and> template_num \<noteq> 6 \<and> template_num \<noteq> 7
     \<longrightarrow> find_candidate_answers env template_num question entity_ids rels_from_template
          = Inr (template_num, []))"
  by (auto simp: find_candidate_answers_def bindE_def split: sum.splits)

text \<open>
  C3, on sample graphs. Template 0: the question's year 1999 matches no qualifier of the
  statement node, and the two-hop answer is returned. Template 3: the statement node has
  no qualifier towards the second entity, and the two-entity two-hop answer is returned.
  Template 6: no instance of \<open>Q1\<close> is located in \<open>Q9\<close>, and the answer of template 5 on
  the first list is returned. Templates 4, 5 and 7 return their strategy's result.
  Templates 0, 3 and 6 return the candidates their strategy finds; templates 0 and 2 raise
  IndexError without entity lists and template 6 AttributeError on an unquoted literal;
  template 8 returns nothing.
\<close>

theorem dispatcher_fallback_table_witness:
  "complex_question_with_number_solver wrong_year_kg 0 ''q'' [[''E1'']] None = Inr []
   \<and> find_candidate_answers wrong_year_kg 0 ''q'' [[''E1'']] None = Inr (7, [[''P54'', ''P571'', ''Q9'']])
   \<and> complex_question_with_qualifier_solver wrong_year_kg 3 ''q'' [[''E1''], [''E2'']] None = Inr []
   \<and> find_candidate_answers wrong_year_kg 3 ''q'' [[''E1''], [''E2'']] None
       = Inr (7, [[''P17'', ''P9'', ''Q5'']])
   \<and> maxmin_two_entities_solver maxmin_kg ''highest'' [[''Q1''], [''Q9'']]
        (Some [[''P17'', ''backw''], [''P2046'', ''forw'']]) = Inr []
   \<and> find_candidate_answers maxmin_kg 6 ''highest'' [[''Q1''], [''Q9'']]
        (Some [[''P17'', ''backw''], [''P2046'', ''forw'']]) = Inr (5, [[''P2046'', ''B'']])
   \<and> find_candidate_answers count_kg 4 ''q'' [[''Q1'']] None
       = Inr (4, [[''P1'', ''2''], [''P1'', ''2''], [''P2'', ''3''], [''P2'', ''3'']])
   \<and> find_candidate_answers maxmin_kg 5 ''lowest'' [[''Q1'']] None = Inr (5, [[''P2046'', ''A'']])
   \<and> find_candidate_answers arity_kg 7 ''q'' [[''Q1''], [''Q2'']] None
       = Inr (7, [[''P1'', ''P9'', ''Y''], [''P1'', ''Y'']])
   \<and> complex_question_with_number_solver statement_kg 0 ''q'' [[''E1'']] None
       = Inr [[''P54'', ''P580'', ''Q7'']]
   \<and> find_candidate_answers statement_kg 0 ''q'' [[''E1'']] None = Inr (0, [[''P54'', ''P580'', ''Q7'']])
   \<and> complex_question_with_qualifier_solver statement_kg 3 ''q'' [[''E1''], [''E2'']] None
       = Inr [[''P54'', ''P580'', ''Q7'']]
   \<and> find_candidate_answers statement_kg 3 ''q'' [[''E1''], [''E2'']] None
       = Inr (3, [[''P54'', ''P580'', ''Q7'']])
   \<and> maxmin_two_entities_solver maxmin_kg ''highest'' [[''Q1''], [''Q2'']] None
       = Inr [[''P17'', ''P2046'', ''A'']]
   \<and> find_candidate_answers maxmin_kg 6 ''highest'' [[''Q1''], [''Q2'']] None
       = Inr (6, [[''P17'', ''P2046'', ''A'']])
   \<and> complex_question_with_number_solver env0 0 ''q'' [] None = Inl IndexError
   \<and> find_candidate_answers env0 0 ''q'' [] None = Inl IndexError
   \<and> complex_question_with_qualifier_solver env0 2 ''q'' [] None = Inl IndexError
   \<and> find_candidate_answers env0 2 ''q'' [] None = Inl IndexError
   \<and> maxmin_two_entities_solver malformed_kg ''q'' [[''Q1''], [''Q3'']] None = Inl AttributeError
   \<and> find_candidate_answers malformed_kg 6 ''q'' [[''Q1''], [''Q3'']] None = Inl AttributeError
   \<and> find_candidate_answers env0 8 ''q'' [[''Q1'']] None = Inr (8, [])"
proof -
  have n0: "complex_question_with_number_solver wrong_year_kg 0 ''q'' [[''E1'']] None = Inr []"
    by code_simp
  have t0: "two_hop_solver wrong_year_kg ''q'' [[''E1'']] None = Inr [[''P54'', ''P571'', ''Q9'']]"
    by code_simp
  have q0: "complex_question_with_qualifier_solver wrong_year_kg 3 ''q'' [[''E1''], [''E2'']] None = Inr []"
    by code_simp
  have t1: "two_hop_solver wrong_year_kg ''q'' [[''E1''], [''E2'']] None = Inr [[''P17'', ''P9'', ''Q5'']]"
    by code_simp
  have m0: "maxmin_two_entities_solver maxmin_kg ''highest'' [[''Q1''], [''Q9'']]
              (Some [[''P17'', ''backw''], [''P2046'', ''forw'']]) = Inr []"
    by code_simp
  have o0: "bindE (py_index [[''Q1''], [''Q9'']] 0) (\<lambda>e0.
              bindE (maxmin_one_entity_solver maxmin_kg ''highest'' (take (entities_to_leave maxmin_kg) e0) None)
                (\<lambda>outs. Inr (5::int, outs))) = Inr (5, [[''P2046'', ''B'']])"
    by code_simp
  have c0: "questions_with_count_solver count_kg ''q'' [[''Q1'']] None
              = Inr [[''P1'', ''2''], [''P1'', ''2''], [''P2'', ''3''], [''P2'', ''3'']]"
    by code_simp
  have o1: "bindE (py_index [[''Q1'']] 0) (\<lambda>e0.
              bindE (maxmin_one_entity_solver maxmin_kg ''lowest'' (take (entities_to_leave maxmin_kg) e0) None)
                (\<lambda>outs. Inr (5::int, outs))) = Inr (5, [[''P2046'', ''A'']])"
    by code_simp
  have t2: "two_hop_solver arity_kg ''q'' [[''Q1''], [''Q2'']] None
              = Inr [[''P1'', ''P9'', ''Y''], [''P1'', ''Y'']]"
    by code_simp
  have n1: "complex_question_with_number_solver statement_kg 0 ''q'' [[''E1'']] None
              = Inr [[''P54'', ''P580'', ''Q7'']]"
    by code_simp
  have q1: "complex_question_with_qualifier_solver statement_kg 3 ''q'' [[''E1''], [''E2'']] None
              = Inr [[''P54'', ''P580'', ''Q7'']]"
    by code_simp
  have m1: "maxmin_two_entities_solver maxmin_kg ''highest'' [[''Q1''], [''Q2'']] None
              = Inr [[''P17'', ''P2046'', ''A'']]"
    by code_simp
  have n2: "complex_question_with_number_solver env0 0 ''q'' [] None = Inl IndexError"
    by code_simp
  have q2: "complex_question_with_qualifier_solver env0 2 ''q'' [] None = Inl IndexError"
    by code_simp
  have m2: "maxmin_two_entities_solver malformed_kg ''q'' [[''Q1''], [''Q3'']] None = Inl AttributeError"
    by code_simp
  show ?thesis
    using dispatcher_fallback_table [of 0 wrong_year_kg "''q''" "[[''E1'']]" None]
      dispatcher_fallback_table [of 3 wrong_year_kg "''q''" "[[''E1''], [''E2'']]" None]
      dispatcher_fallback_table [of 6 maxmin_kg "''highest''" "[[''Q1''], [''Q9'']]"
        "Some [[''P17'', ''backw''], [''P2046'', ''forw'']]"]
      dispatcher_fallback_table [of 4 count_kg "''q''" "[[''Q1'']]" None]
      dispatcher_fallback_table [of 5 maxmin_kg "''lowest''" "[[''Q1'']]" None]
      dispatcher_fallback_table [of 7 arity_kg "''q''" "[[''Q1''], [''Q2'']]" None]
      dispatcher_fallback_table [of 0 statement_kg "''q''" "[[''E1'']]" None "[[''P54'', ''P580'', ''Q7'']]"]
      dispatcher_fallback_table [of 3 statement_kg "''q''" "[[''E1''], [''E2'']]" None
        "[[''P54'', ''P580'', ''Q7'']]"]
      dispatcher_fallback_table [of 6 maxmin_kg "''highest''" "[[''Q1''], [''Q2'']]" None
        "[[''P17'', ''P2046'', ''A'']]"]
      dispatcher_fallback_table [of 0 env0 "''q''" "[]" None _ IndexError]
      dispatcher_fallback_table [of 2 env0 "''q''" "[]" None _ IndexError]
      dispatcher_fallback_table [of 6 malformed_kg "''q''" "[[''Q1''], [''Q3'']]" None _ AttributeError]
      dispatcher_fallback_table [of 8 env0 "''q''" "[[''Q1'']]" None]
      n0 t0 q0 t1 m0 o0 c0 o1 t2 n1 q1 m1 n2 q2 m2
    by simp
qed

section \<open>The generic two-hop solver and its entity lists\<close>

text \<open>
  C10. Without template relations, two inputs of the generic two-hop solver with at least
  four entity lists each that agree on their first two lists give the same result.
\<close>

theorem two_hop_solver_ignores_later_lists:
  assumes "4 \<le> length entity_ids" and "4 \<le> length entity_ids'"
    and "take 2 entity_ids = take 2 entity_ids'"
  shows "two_hop_solver env question entity_ids None = two_hop_solver env question entity_ids' None"
proof -
  have "take 2 entity_ids ! 0 = take 2 entity_ids' ! 0" "take 2 entity_ids ! 1 = take 2 entity_ids' ! 1"
    using assms(3) by simp_all
  then have "entity_ids ! 0 = entity_ids' ! 0" "entity_ids ! 1 = entity_ids' ! 1"
    by simp_all
  with assms(1,2) show ?thesis
    by (simp add: two_hop_solver_def del: One_nat_def cong: if_cong)
qed

text \<open>C10, on a sample graph: four and five entity lists sharing the first two.\<close>

theorem two_hop_solver_ignores_later_lists_witness:
  "4 \<le> length [[''Q1''], [''Q2''], [''Q3''], [''Q4'']]
   \<and> 4 \<le> length [[''Q1''], [''Q2''], [''Q5''], [''Q6''], [''Q7'']]
   \<and> take 2 [[''Q1''], [''Q2''], [''Q3''], [''Q4'']] = take 2 [[''Q1''], [''Q2''], [''Q5''], [''Q6''], [''Q7'']]
   \<and> two_hop_solver retry_kg ''q'' [[''Q1''], [''Q2''], [''Q3''], [''Q4'']] None
       = two_hop_solver retry_kg ''q'' [[''Q1''], [''Q2''], [''Q5''], [''Q6''], [''Q7'']] None"
proof -
  have a: "4 \<le> length [[''Q1''], [''Q2''], [''Q3''], [''Q4'']]" by simp
  have b: "4 \<le> length [[''Q1''], [''Q2''], [''Q5''], [''Q6''], [''Q7'']]" by simp
  have c: "take 2 [[''Q1''], [''Q2''], [''Q3''], [''Q4'']]
             = take 2 [[''Q1''], [''Q2''], [''Q5''], [''Q6''], [''Q7'']]" by simp
  show ?thesis
    using a b c two_hop_solver_ignores_later_lists [OF a b c, of retry_kg "''q''"] by blast
qed

text \<open>
  C9, as stated, fails: with the three entity lists \<open>Q1\<close>, \<open>Q2\<close>, \<open>Q3\<close> both two-entity
  searches are empty and the one-entity search on the second list finds \<open>(P1, Y)\<close>, yet the
  solver returns the empty list.
\<close>

theorem three_lists_no_one_entity_fallback:
  "two_hop_two_ent retry_kg ''q'' (make_entity_combs [[''Q1''], [''Q2'']]) = Inr []
   \<and> two_hop_two_ent retry_kg ''q'' (make_entity_combs [[''Q1''], [''Q3'']]) = Inr []
   \<and> two_hop_one_ent retry_kg ''q'' [''Q2''] = [[''P1'', ''Y'']]
   \<and> two_hop_solver retry_kg ''q'' [[''Q1''], [''Q2''], [''Q3'']] None = Inr []"
  by code_simp

text \<open>
  C9, amended. Without template relations, when the two-entity search over lists 1 and 2
  is empty: with exactly three entity lists the solver's result is the result of the
  two-entity search pairing list 1 with list 3, whatever it is; with two lists or more
  than three, it is the result of the one-entity search on list 2.
\<close>

theorem two_hop_solver_retry:
  "(length entity_ids = 3
      \<and> two_hop_two_ent env question (make_entity_combs [entity_ids ! 0, entity_ids ! 1]) = Inr []
     \<longrightarrow> two_hop_solver env question entity_ids None
          = two_hop_two_ent env question (make_entity_combs [entity_ids ! 0, entity_ids ! 2]))
   \<and> (2 \<le> length entity_ids \<and> length entity_ids \<noteq> 3
      \<and> two_hop_two_ent env question (make_entity_combs [entity_ids ! 0, entity_ids ! 1]) = Inr []
     \<longrightarrow> two_hop_solver env question entity_ids None
          = Inr (two_hop_one_ent env question (entity_ids ! 1)))"
  by (simp add: two_hop_solver_def)

text \<open>
  C9, amended, on sample graphs: three lists where the retry with the third list finds
  two candidates, and two lists where the one-entity search is the fallback.
\<close>

theorem two_hop_solver_retry_witness:
  "length [[''Q1''], [''Q3''], [''Q2'']] = 3
   \<and> two_hop_two_ent arity_kg ''q'' (make_entity_combs [[''Q1''], [''Q3'']]) = Inr []
   \<and> two_hop_solver arity_kg ''q'' [[''Q1''], [''Q3''], [''Q2'']] None
       = Inr [[''P1'', ''P9'', ''Y''], [''P1'', ''Y'']]
   \<and> two_hop_two_ent retry_kg ''q'' (make_entity_combs [[''Q1''], [''Q2'']]) = Inr []
   \<and> two_hop_solver retry_kg ''q'' [[''Q1''], [''Q2'']] None = Inr [[''P1'', ''Y'']]"
proof -
  have a: "two_hop_two_ent arity_kg ''q'' (make_entity_combs [[''Q1''], [''Q3'']]) = Inr []"
    by code_simp
  have b: "two_hop_two_ent arity_kg ''q'' (make_entity_combs [[''Q1''], [''Q2'']])
             = Inr [[''P1'', ''P9'', ''Y''], [''P1'', ''Y'']]"
    by code_simp
  have c: "two_hop_two_ent retry_kg ''q'' (make_entity_combs [[''Q1''], [''Q2'']]) = Inr []"
    by code_simp
  have d: "two_hop_one_ent retry_kg ''q'' [''Q2''] = [[''P1'', ''Y'']]"
    by code_simp
  show ?thesis
    using two_hop_solver_retry [of "[[''Q1''], [''Q3''], [''Q2'']]" arity_kg "''q''"]
      two_hop_solver_retry [of "[[''Q1''], [''Q2'']]" retry_kg "''q''"] a b c d
    by simp
qed

section \<open>Where the code departs from the specification\<close>

text \<open>
  C1. The two max/min solvers read the classifier in opposite ways. In the sample graph
  the selected relation pair \<open>(P17, P2046)\<close> has the values 1 (for \<open>A\<close>) and 2 (for \<open>B\<close>).
  For the ascending question the two-entity solver of template 6 returns \<open>B\<close>, the
  maximum, and for the other question \<open>A\<close>, the minimum; the one-entity solver of
  template 5 returns the minimum \<open>A\<close> for the ascending question.
\<close>

theorem maxmin_two_inverted_order:
  "asc_desc maxmin_kg ''lowest''
   \<and> find_relevant_subgraph_maxmin_two maxmin_kg (make_entity_combs [[''Q1''], [''Q2'']]) [''P17''] [''P2046'']
       = Inr [(''P17'', ''P2046'', ''A'', 1), (''P17'', ''P2046'', ''B'', 2)]
   \<and> maxmin_two_entities_solver maxmin_kg ''lowest'' [[''Q1''], [''Q2'']] None
       = Inr [[''P17'', ''P2046'', ''B'']]
   \<and> \<not> asc_desc maxmin_kg ''highest''
   \<and> maxmin_two_entities_solver maxmin_kg ''highest'' [[''Q1''], [''Q2'']] None
       = Inr [[''P17'', ''P2046'', ''A'']]
   \<and> maxmin_one_entity_solver maxmin_kg ''lowest'' [''Q1''] None = Inr [[''P2046'', ''A'']]"
  by code_simp

text \<open>
  C2. The count solver extends one answer list per entity over all relations and
  directions. In the sample graph \<open>Q1\<close> reaches two objects by \<open>P1\<close> forward, one by \<open>P2\<close>
  forward and none backward; the solver emits four tuples, two of them for the empty
  backward sets, and reports 3 for \<open>P2\<close>.
\<close>

theorem count_solver_cumulative:
  "wiki_objects count_kg ''forw'' ''Q1'' (Some ''P1'') None (Some ''direct'') None = [''A'', ''B'']
   \<and> wiki_objects count_kg ''backw'' ''Q1'' (Some ''P1'') None (Some ''direct'') None = []
   \<and> wiki_objects count_kg ''forw'' ''Q1'' (Some ''P2'') None (Some ''direct'') None = [''C'']
   \<and> wiki_objects count_kg ''backw'' ''Q1'' (Some ''P2'') None (Some ''direct'') None = []
   \<and> questions_with_count_solver count_kg ''q'' [[''Q1'']] None
       = Inr [[''P1'', ''2''], [''P1'', ''2''], [''P2'', ''3''], [''P2'', ''3'']]"
  by code_simp

text \<open>
  C4. The dispatcher calls the solvers of templates 0 to 4 without the template
  relations. With the template relation \<open>P2\<close> (forward) the dispatcher's result for
  template 4 is the one of the ranked vocabulary \<open>P1\<close>, \<open>P2\<close> in both directions, whereas
  the count solver given that template relation returns the single tuple for \<open>P2\<close>.
\<close>

theorem dispatcher_drops_template_rels:
  "find_candidate_answers count_kg 4 ''q'' [[''Q1'']] (Some [[''P2'', ''forw'']])
     = Inr (4, [[''P1'', ''2''], [''P1'', ''2''], [''P2'', ''3''], [''P2'', ''3'']])
   \<and> questions_with_count_solver count_kg ''q'' [[''Q1'']] (Some [[''P2'', ''forw'']])
     = Inr [[''P2'', ''1'']]"
  by code_simp

text \<open>
  C5. The two-entity two-hop search iterates over the whole ranked list. With both
  relation bounds equal to 1 and the ranked relations \<open>P1\<close>, \<open>P2\<close> of \<open>Q2\<close>, the solver
  returns a candidate reached through \<open>P2\<close>, the second relation.
\<close>

theorem two_hop_two_ent_untruncated:
  "rels_to_leave trunc_kg = 1 \<and> rels_to_leave_2hop trunc_kg = 1
   \<and> map fst (rank_rels trunc_kg ''q'' (list_set trunc_kg
        (wiki_rels trunc_kg ''forw'' ''Q2'' None None (Some ''direct'') None
         @ wiki_rels trunc_kg ''backw'' ''Q2'' None None (Some ''direct'') None))) = [''P1'', ''P2'']
   \<and> two_hop_solver trunc_kg ''q'' [[''Q1''], [''Q2'']] None = Inr [[''P2'', ''P9'', ''W'']]"
  by code_simp

text \<open>
  C6. With the entity bound equal to 1, entity linking keeps both candidates of the
  mention (its cap is 15), and the second candidate \<open>Q2\<close> decides the result: the
  template search of template 7 returns the object \<open>Z\<close> of \<open>Q2\<close>, and the two-entity
  max/min solver takes the relation \<open>P17\<close> from \<open>Q2\<close>; without \<open>Q2\<close> both are empty.
\<close>

theorem entity_cap_not_applied:
  "entities_to_leave cap_kg = 1
   \<and> get_entity_ids cap_kg [''m''] = [[''Q1'', ''Q2'']]
   \<and> find_candidate_answers cap_kg 7 ''q'' [[''Q1'', ''Q2'']] (Some [[''P1'', ''forw'']])
       = Inr (7, [[''P1'', ''Z'']])
   \<and> find_candidate_answers cap_kg 7 ''q'' [[''Q1'']] (Some [[''P1'', ''forw'']]) = Inr (7, [])
   \<and> maxmin_two_entities_solver cap_kg ''q'' [[''Q1'', ''Q2''], [''Q3'']] None
       = Inr [[''P17'', ''P2046'', ''A'']]
   \<and> maxmin_two_entities_solver cap_kg ''q'' [[''Q1''], [''Q3'']] None = Inr []"
  by code_simp

section \<open>Malformed numeric literals\<close>




section \<open>Arity of the candidate outputs\<close>

text \<open>
  C8, as stated, fails for template 7: the two-entity two-hop search returns a triple and
  a pair in one result when the intermediate object is related to the first entity both
  by \<open>P31\<close> and by another relation.
\<close>

theorem two_hop_mixed_arity:
  "two_hop_solver arity_kg ''q'' [[''Q1''], [''Q2'']] None = Inr [[''P1'', ''P9'', ''Y''], [''P1'', ''Y'']]
   \<and> length [''P1'', ''P9'', ''Y''] \<noteq> length [''P1'', ''Y'']"
  by code_simp

text \<open>
  C8, amended. The strategies of templates 0 to 6 return tuples of one arity: 3 for the
  number solver (templates 0, 1), the qualifier solver (2, 3) and the two-entity max/min
  solver (6), 2 for the count solver (4) and the one-entity max/min solver (5). The
  generic two-hop solver of template 7 returns tuples of arity 2 or 3.
\<close>

theorem strategy_arity:
  "(complex_question_with_number_solver env template_num question entity_ids rels_from_template = Inr outs
      \<longrightarrow> (\<forall>t\<in>set outs. length t = 3))
   \<and> (complex_question_with_qualifier_solver env template_num question entity_ids rels_from_template = Inr outs
      \<longrightarrow> (\<forall>t\<in>set outs. length t = 3))
   \<and> (questions_with_count_solver env question entity_ids rels_from_template = Inr outs
      \<longrightarrow> (\<forall>t\<in>set outs. length t = 2))
   \<and> (maxmin_one_entity_solver env question entities_list rels_from_template = Inr outs
      \<longrightarrow> (\<forall>t\<in>set outs. length t = 2))
   \<and> (maxmin_two_entities_solver env question entity_ids rels_from_template = Inr outs
      \<longrightarrow> (\<forall>t\<in>set outs. length t = 3))
   \<and> (two_hop_solver env question entity_ids rels_from_template = Inr outs
      \<longrightarrow> (\<forall>t\<in>set outs. length t = 2 \<or> length t = 3))"
proof (intro conjI impI)
  assume "complex_question_with_number_solver env template_num question entity_ids rels_from_template = Inr outs"
  then show "\<forall>t\<in>set outs. length t = 3"
    by (blast dest: number_solver_arity)
next
  assume "complex_question_with_qualifier_solver env template_num question entity_ids rels_from_template = Inr outs"
  then show "\<forall>t\<in>set outs. length t = 3"
    by (blast dest: qualifier_solver_arity)
next
  assume "questions_with_count_solver env question entity_ids rels_from_template = Inr outs"
  then show "\<forall>t\<in>set outs. length t = 2"
    by (blast dest: count_solver_arity)
next
  assume "maxmin_one_entity_solver env question entities_list rels_from_template = Inr outs"
  then show "\<forall>t\<in>set outs. length t = 2"
    by (simp add: maxmin_one_arity)
next
  assume "maxmin_two_entities_solver env question entity_ids rels_from_template = Inr outs"
  then show "\<forall>t\<in>set outs. length t = 3"
    by (simp add: maxmin_two_arity)
next
  assume "two_hop_solver env question entity_ids rels_from_template = Inr outs"
  then show "\<forall>t\<in>set outs. length t = 2 \<or> length t = 3"
    by (rule two_hop_solver_arity)
qed

text \<open>
  C8, amended, on sample graphs: one nonempty result per strategy, with the arity of each
  of its tuples.
\<close>

theorem strategy_arity_witness:
  "complex_question_with_number_solver statement_kg 0 ''q'' [[''E1'']] None = Inr [[''P54'', ''P580'', ''Q7'']]
   \<and> length [''P54'', ''P580'', ''Q7''] = 3
   \<and> complex_question_with_qualifier_solver statement_kg 3 ''q'' [[''E1''], [''E2'']] None
       = Inr [[''P54'', ''P580'', ''Q7'']]
   \<and> questions_with_count_solver count_kg ''q'' [[''Q1'']] (Some [[''P2'', ''forw'']]) = Inr [[''P2'', ''1'']]
   \<and> length [''P2'', ''1''] = 2
   \<and> maxmin_one_entity_solver maxmin_kg ''highest'' [''Q1''] None = Inr [[''P2046'', ''B'']]
   \<and> length [''P2046'', ''B''] = 2
   \<and> maxmin_two_entities_solver maxmin_kg ''highest'' [[''Q1''], [''Q2'']] None
       = Inr [[''P17'', ''P2046'', ''A'']]
   \<and> length [''P17'', ''P2046'', ''A''] = 3
   \<and> two_hop_solver arity_kg ''q'' [[''Q1''], [''Q2'']] None = Inr [[''P1'', ''P9'', ''Y''], [''P1'', ''Y'']]
   \<and> (length [''P1'', ''P9'', ''Y''] = 2 \<or> length [''P1'', ''P9'', ''Y''] = 3)
   \<and> (length [''P1'', ''Y''] = 2 \<or> length [''P1'', ''Y''] = 3)"
proof -
  have n: "complex_question_with_number_solver statement_kg 0 ''q'' [[''E1'']] None
             = Inr [[''P54'', ''P580'', ''Q7'']]"
    by code_simp
  have q: "complex_question_with_qualifier_solver statement_kg 3 ''q'' [[''E1''], [''E2'']] None
             = Inr [[''P54'', ''P580'', ''Q7'']]"
    by code_simp
  have c: "questions_with_count_solver count_kg ''q'' [[''Q1'']] (Some [[''P2'', ''forw'']])
             = Inr [[''P2'', ''1'']]"
    by code_simp
  have o: "maxmin_one_entity_solver maxmin_kg ''highest'' [''Q1''] None = Inr [[''P2046'', ''B'']]"
    by code_simp
  have t: "maxmin_two_entities_solver maxmin_kg ''highest'' [[''Q1''], [''Q2'']] None
             = Inr [[''P17'', ''P2046'', ''A'']]"
    by code_simp
  have h: "two_hop_solver arity_kg ''q'' [[''Q1''], [''Q2'']] None
             = Inr [[''P1'', ''P9'', ''Y''], [''P1'', ''Y'']]"
    by code_simp
  show ?thesis
    using strategy_arity [of statement_kg 0 "''q''" "[[''E1'']]" None "[[''P54'', ''P580'', ''Q7'']]"]
      strategy_arity [of statement_kg 3 "''q''" "[[''E1''], [''E2'']]" None "[[''P54'', ''P580'', ''Q7'']]"]
      strategy_arity [of count_kg _ "''q''" "[[''Q1'']]" "Some [[''P2'', ''forw'']]" "[[''P2'', ''1'']]"]
      strategy_arity [of maxmin_kg _ "''highest''" _ None "[[''P2046'', ''B'']]" "[''Q1'']"]
      strategy_arity [of maxmin_kg _ "''highest''" "[[''Q1''], [''Q2'']]" None "[[''P17'', ''P2046'', ''A'']]"]
      strategy_arity [of arity_kg _ "''q''" "[[''Q1''], [''Q2'']]" None
        "[[''P1'', ''P9'', ''Y''], [''P1'', ''Y'']]"]
      n q c o t h
    by simp
qed

end
